theory Spec2Isabelle
  imports Complex_Main "HOL-Library.AList" "HOL-Library.Multiset"
begin

section \<open>Strings, paths and the scanned corpus\<close>

text \<open>
  Python strings are modelled as lists of 8-bit characters, read as the code points
  0 to 255. The helpers below are the string operations the two validators use:
  \<^verbatim>\<open>startswith\<close>, \<^verbatim>\<open>endswith\<close>, the substring test \<^verbatim>\<open>x in s\<close>, \<^verbatim>\<open>count\<close> of
  one character, \<^verbatim>\<open>split('\n')\<close>, \<^verbatim>\<open>strip()\<close> and \<^verbatim>\<open>lower()\<close>.
\<close>

definition startswith :: "string \<Rightarrow> string \<Rightarrow> bool" where
  "startswith s p = (take (length p) s = p)"

definition endswith :: "string \<Rightarrow> string \<Rightarrow> bool" where
  "endswith s p = (length p \<le> length s \<and> drop (length s - length p) s = p)"

text \<open>\<^verbatim>\<open>x in s\<close>: \<open>x\<close> occurs in \<open>s\<close> as a contiguous substring.\<close>

fun str_in :: "string \<Rightarrow> string \<Rightarrow> bool" where
  "str_in x [] = (x = [])"
| "str_in x (c # cs) = (startswith (c # cs) x \<or> str_in x cs)"

definition count_char :: "string \<Rightarrow> char \<Rightarrow> int" where
  "count_char s c = int (length (filter (\<lambda>d. d = c) s))"

text \<open>\<^verbatim>\<open>s.split('\n')\<close>: always at least one piece, the separator removed.\<close>

fun split_lines :: "string \<Rightarrow> string list" where
  "split_lines [] = [[]]"
| "split_lines (c # cs) =
     (if c = CHR 0x0A then [] # split_lines cs
      else (case split_lines cs of
              [] \<Rightarrow> [[c]]
            | l # ls \<Rightarrow> (c # l) # ls))"

text \<open>
  The character classes of Python 3 on code points below 256: \<^verbatim>\<open>str.isspace\<close> and
  the pattern class \<^verbatim>\<open>\s\<close> agree, \<^verbatim>\<open>\w\<close> is the alphanumeric characters and the
  underscore.
\<close>

definition is_space :: "char \<Rightarrow> bool" where
  "is_space c = (let n = (of_char c :: nat) in
     (9 \<le> n \<and> n \<le> 13) \<or> (28 \<le> n \<and> n \<le> 32) \<or> n = 133 \<or> n = 160)"

definition is_upper_ascii :: "char \<Rightarrow> bool" where
  "is_upper_ascii c = (let n = (of_char c :: nat) in 65 \<le> n \<and> n \<le> 90)"

definition is_lower_ascii :: "char \<Rightarrow> bool" where
  "is_lower_ascii c = (let n = (of_char c :: nat) in 97 \<le> n \<and> n \<le> 122)"

definition is_digit_ascii :: "char \<Rightarrow> bool" where
  "is_digit_ascii c = (let n = (of_char c :: nat) in 48 \<le> n \<and> n \<le> 57)"

definition is_word :: "char \<Rightarrow> bool" where
  "is_word c = (let n = (of_char c :: nat) in
     is_upper_ascii c \<or> is_lower_ascii c \<or> is_digit_ascii c \<or> n = 95 \<or>
     n = 170 \<or> n = 178 \<or> n = 179 \<or> n = 181 \<or> n = 185 \<or> n = 186 \<or>
     (188 \<le> n \<and> n \<le> 190) \<or> (192 \<le> n \<and> n \<le> 214) \<or>
     (216 \<le> n \<and> n \<le> 246) \<or> 248 \<le> n)"

definition strip :: "string \<Rightarrow> string" where
  "strip s = rev (dropWhile is_space (rev (dropWhile is_space s)))"

definition lower_char :: "char \<Rightarrow> char" where
  "lower_char c = (let n = (of_char c :: nat) in
     if (65 \<le> n \<and> n \<le> 90) \<or> (192 \<le> n \<and> n \<le> 214) \<or> (216 \<le> n \<and> n \<le> 222)
     then char_of (n + 32) else c)"

definition lower :: "string \<Rightarrow> string" where
  "lower s = map lower_char s"

text \<open>
  A scanned path is kept as its directory components below the project root and its
  final component. Reading it either fails (the exception's text is kept) or gives
  the text of the file; a directory that a pattern matches is an entry whose read
  fails.
\<close>

datatype io_error = IOError string

record file_entry =
  path_dir :: "string list"
  path_name :: string
  read_text :: "io_error + string"

type_synonym corpus = "file_entry list"

text \<open>Shell-style matching of a final path component: \<open>*\<close> stands for any run of characters.\<close>

fun fnmatch :: "string \<Rightarrow> string \<Rightarrow> bool" where
  "fnmatch [] [] = True"
| "fnmatch (c # cs) [] = False"
| "fnmatch [] (p # ps) = (if p = CHR ''*'' then fnmatch [] ps else False)"
| "fnmatch (c # cs) (p # ps) =
     (if p = CHR ''*'' then (if fnmatch (c # cs) ps then True else fnmatch cs (p # ps))
      else if p = c then fnmatch cs ps else False)"

text \<open>\<^verbatim>\<open>project_root.rglob(pattern)\<close> over the corpus, in the order of enumeration.\<close>

definition rglob :: "corpus \<Rightarrow> string \<Rightarrow> corpus" where
  "rglob fs pattern = filter (\<lambda>f. fnmatch (path_name f) pattern) fs"

definition path_lookup :: "corpus \<Rightarrow> string list \<Rightarrow> string \<Rightarrow> file_entry option" where
  "path_lookup fs d n = find (\<lambda>f. path_dir f = d \<and> path_name f = n) fs"



section \<open>The UX validator: check dictionaries\<close>

text \<open>
  A check dictionary maps check names to booleans and keeps insertion order.
  \<open>sum_values\<close> is \<^verbatim>\<open>sum(checks.values())\<close>, where \<^verbatim>\<open>True\<close> counts 1.
\<close>

type_synonym checks = "(string \<times> bool) list"

definition sum_values :: "checks \<Rightarrow> int" where
  "sum_values c = sum_list (map (\<lambda>kv. if snd kv then 1 else 0) c)"

text \<open>\<^verbatim>\<open>if cond: checks[key] = True\<close>\<close>

definition mark :: "bool \<Rightarrow> string \<Rightarrow> checks \<Rightarrow> checks" where
  "mark cond key c = (if cond then AList.update key True c else c)"

text \<open>
  The loop shape shared by the content checks:
  \<^verbatim>\<open>for file_path in dart_files: try: content = read; body; except: continue\<close>.
\<close>

fun scan_files :: "(string \<Rightarrow> checks \<Rightarrow> checks) \<Rightarrow> corpus \<Rightarrow> checks \<Rightarrow> checks" where
  "scan_files body [] c = c"
| "scan_files body (f # fs) c =
     (case read_text f of
        Inl e \<Rightarrow> scan_files body fs c
      | Inr content \<Rightarrow> scan_files body fs (body content c))"

text \<open>The loop with \<^verbatim>\<open>break\<close>: stop at the first readable file whose text satisfies the test.\<close>

fun scan_until :: "(string \<Rightarrow> bool) \<Rightarrow> corpus \<Rightarrow> bool" where
  "scan_until test [] = False"
| "scan_until test (f # fs) =
     (case read_text f of
        Inl e \<Rightarrow> scan_until test fs
      | Inr content \<Rightarrow> (if test content then True else scan_until test fs))"

definition material_design_checks :: "corpus \<Rightarrow> checks" where
  "material_design_checks fs =
    (let material_checks =
           [(''theme_implementation'', False), (''component_usage'', False),
            (''color_system'', False), (''typography'', False),
            (''elevation_shadows'', False)];
         material_checks = mark (rglob fs ''*theme*.dart'' \<noteq> []) ''theme_implementation'' material_checks;
         material_checks = mark (rglob fs ''*color*.dart'' \<noteq> []) ''color_system'' material_checks;
         material_checks = mark (rglob fs ''*typography*.dart'' \<noteq> []) ''typography'' material_checks;
         material_checks = mark (length (rglob fs ''premium_*.dart'') \<ge> 3) ''component_usage'' material_checks;
         elevation_found =
           scan_until (\<lambda>content. str_in ''elevation:'' content \<or> str_in ''boxShadow'' content)
             (rglob fs ''*.dart'')
     in AList.update ''elevation_shadows'' elevation_found material_checks)"

definition accessibility_file :: "string \<Rightarrow> checks \<Rightarrow> checks" where
  "accessibility_file content c =
    (let c = mark (str_in ''semanticsLabel'' content \<or> str_in ''Semantics('' content) ''semantic_labels'' c;
         c = mark (str_in ''FocusNode'' content \<or> str_in ''focus:'' content) ''focus_management'' c;
         c = mark (str_in ''textScaleFactor'' content \<or> str_in ''MediaQuery'' content) ''text_scaling'' c;
         c = mark (str_in ''ExcludeSemantics'' content \<or> str_in ''MergeSemantics'' content) ''screen_reader_support'' c
     in c)"

definition accessibility_checks :: "corpus \<Rightarrow> checks" where
  "accessibility_checks fs =
    (let accessibility_checks =
           [(''semantic_labels'', False), (''focus_management'', False),
            (''color_contrast'', False), (''text_scaling'', False),
            (''screen_reader_support'', False)];
         accessibility_checks = scan_files accessibility_file (rglob fs ''*.dart'') accessibility_checks
     in mark (scan_until (\<lambda>content. str_in ''ThemeData.dark'' content
                                   \<or> str_in ''brightness: Brightness.dark'' content)
                (rglob fs ''*theme*.dart''))
          ''color_contrast'' accessibility_checks)"

definition performance_file :: "string \<Rightarrow> checks \<Rightarrow> checks" where
  "performance_file content c =
    (let c = mark (str_in ''FutureBuilder'' content \<or> str_in ''StreamBuilder'' content) ''lazy_loading'' c;
         c = mark (str_in ''dispose()'' content \<and> str_in ''initState()'' content) ''memory_optimization'' c;
         c = mark (str_in ''AnimationController'' content \<or> str_in ''Tween'' content) ''smooth_animations'' c
     in c)"

definition performance_checks :: "corpus \<Rightarrow> checks" where
  "performance_checks fs =
    (let performance_checks =
           [(''image_caching'', False), (''lazy_loading'', False),
            (''performance_monitoring'', False), (''memory_optimization'', False),
            (''smooth_animations'', False)];
         performance_checks = mark (rglob fs ''*cache*.dart'' \<noteq> []) ''image_caching'' performance_checks;
         performance_checks = mark (rglob fs ''*performance*.dart'' \<noteq> []) ''performance_monitoring'' performance_checks
     in scan_files performance_file (rglob fs ''*.dart'') performance_checks)"

definition animation_file :: "string \<Rightarrow> checks \<Rightarrow> checks" where
  "animation_file content c =
    (let c = mark (str_in ''onTap'' content \<and> (str_in ''Animation'' content \<or> str_in ''scale'' content)) ''micro_interactions'' c;
         c = mark (str_in ''PageRouteBuilder'' content \<or> str_in ''SlideTransition'' content) ''page_transitions'' c;
         c = mark (str_in ''CircularProgressIndicator'' content \<or> str_in ''LinearProgressIndicator'' content) ''loading_animations'' c;
         c = mark (str_in ''GestureDetector'' content \<and> str_in ''Animation'' content) ''gesture_animations'' c;
         c = mark (str_in ''Hero('' content) ''hero_animations'' c
     in c)"

definition animation_checks :: "corpus \<Rightarrow> checks" where
  "animation_checks fs =
    (let animation_checks =
           [(''micro_interactions'', False), (''page_transitions'', False),
            (''loading_animations'', False), (''gesture_animations'', False),
            (''hero_animations'', False)]
     in scan_files animation_file (rglob fs ''*.dart'') animation_checks)"

text \<open>
  \<^verbatim>\<open>len(re.findall(r'Color\(0x[0-9A-Fa-f]{8}\)', content))\<close>: the matches have the
  fixed length 17 and are taken from left to right without overlap.
\<close>

definition is_hex :: "char \<Rightarrow> bool" where
  "is_hex c = (let n = (of_char c :: nat) in
     is_digit_ascii c \<or> (65 \<le> n \<and> n \<le> 70) \<or> (97 \<le> n \<and> n \<le> 102))"

definition color_literal_at :: "string \<Rightarrow> bool" where
  "color_literal_at s =
     (startswith s ''Color(0x'' \<and> length (take 8 (drop 8 s)) = 8 \<and>
      list_all is_hex (take 8 (drop 8 s)) \<and> take 1 (drop 16 s) = '')'')"

fun count_color_literals :: "string \<Rightarrow> nat" where
  "count_color_literals [] = 0"
| "count_color_literals (c # cs) =
     (if color_literal_at (c # cs) then Suc (count_color_literals (drop 16 cs))
      else count_color_literals cs)"

definition custom_fonts_check :: "corpus \<Rightarrow> bool" where
  "custom_fonts_check fs =
     (case path_lookup fs [] ''pubspec.yaml'' of
        None \<Rightarrow> False
      | Some f \<Rightarrow> (case read_text f of
                     Inl e \<Rightarrow> False
                   | Inr content \<Rightarrow> str_in ''fonts:'' content))"

definition theming_file :: "string \<Rightarrow> checks \<Rightarrow> checks" where
  "theming_file content c =
    (let c = mark (str_in ''ThemeData.dark'' content \<or> str_in ''brightness:'' content) ''dark_light_theme'' c;
         c = mark (str_in ''Theme.of(context)'' content) ''consistent_colors'' c;
         c = mark (str_in ''ThemeMode'' content \<or> str_in ''theme:'' content) ''theme_switching'' c;
         c = mark (str_in ''Color(0x'' content \<and> count_color_literals content \<ge> 3) ''brand_consistency'' c
     in c)"

definition theming_checks :: "corpus \<Rightarrow> checks" where
  "theming_checks fs =
    (let theming_checks =
           [(''dark_light_theme'', False), (''consistent_colors'', False),
            (''custom_fonts'', False), (''theme_switching'', False),
            (''brand_consistency'', False)];
         theming_checks = mark (custom_fonts_check fs) ''custom_fonts'' theming_checks
     in scan_files theming_file (rglob fs ''*.dart'') theming_checks)"

definition responsive_file :: "string \<Rightarrow> checks \<Rightarrow> checks" where
  "responsive_file content c =
    (let c = mark (str_in ''MediaQuery.of(context).size'' content) ''screen_size_adaptation'' c;
         c = mark (str_in ''Orientation.'' content \<or> str_in ''orientation:'' content) ''orientation_handling'' c;
         c = mark (str_in ''SafeArea('' content) ''safe_area_usage'' c;
         c = mark (str_in ''Flexible('' content \<or> str_in ''Expanded('' content \<or> str_in ''Wrap('' content) ''flexible_layouts'' c;
         c = mark (str_in ''LayoutBuilder'' content \<or> str_in ''constraints'' content) ''breakpoint_handling'' c
     in c)"

definition responsive_checks :: "corpus \<Rightarrow> checks" where
  "responsive_checks fs =
    (let responsive_checks =
           [(''screen_size_adaptation'', False), (''orientation_handling'', False),
            (''safe_area_usage'', False), (''flexible_layouts'', False),
            (''breakpoint_handling'', False)]
     in scan_files responsive_file (rglob fs ''*.dart'') responsive_checks)"

definition flow_file :: "string \<Rightarrow> checks \<Rightarrow> checks" where
  "flow_file content c =
    (let c = mark (str_in ''onboard'' (lower content) \<or> str_in ''intro'' (lower content)) ''onboarding_flow'' c;
         c = mark (str_in ''try {'' content \<and> str_in ''catch'' content) ''error_handling_flow'' c;
         c = mark (str_in ''Navigator.'' content \<or> str_in ''GoRouter'' content) ''navigation_flow'' c;
         c = mark (str_in ''SnackBar'' content \<or> str_in ''showDialog'' content
                    \<or> str_in ''ScaffoldMessenger'' content) ''feedback_flow'' c
     in c)"

definition flow_checks :: "corpus \<Rightarrow> checks" where
  "flow_checks fs =
    (let flow_checks =
           [(''onboarding_flow'', False), (''authentication_flow'', False),
            (''error_handling_flow'', False), (''navigation_flow'', False),
            (''feedback_flow'', False)];
         flow_checks = mark (rglob fs ''*auth*.dart'' \<noteq> []) ''authentication_flow'' flow_checks
     in scan_files flow_file (rglob fs ''*.dart'') flow_checks)"

section \<open>Floating-point numbers\<close>

text \<open>
  Python floats are IEEE binary64 numbers. A finite one is kept as a pair \<open>Float m e\<close>
  that stands for \<open>m * 2 ^ e\<close>. True division of two integers and the product of a
  float and an integer are correctly rounded: the result is the binary64 number
  nearest to the exact value, a tie going to the even significand. The rounding is
  the one of the normal range (magnitude from \<open>2 ^ -1022\<close> up to \<open>2 ^ 1024\<close>), which
  holds every value computed from scores between 0 and 100.
\<close>

datatype pyfloat = Float int int

definition pow2 :: "int \<Rightarrow> rat" where
  "pow2 e = (if 0 \<le> e then 2 ^ nat e else 1 / 2 ^ nat (- e))"

definition float_value :: "pyfloat \<Rightarrow> rat" where
  "float_value x = (case x of Float m e \<Rightarrow> of_int m * pow2 e)"

fun ilog2 :: "nat \<Rightarrow> nat" where
  "ilog2 n = (if n < 2 then 0 else Suc (ilog2 (n div 2)))"

declare ilog2.simps [simp del]

text \<open>The integer \<open>e\<close> with \<open>2 ^ e \<le> a / b < 2 ^ (e + 1)\<close>, for positive \<open>a\<close> and \<open>b\<close>.\<close>

definition floor_log2 :: "int \<Rightarrow> int \<Rightarrow> int" where
  "floor_log2 a b =
     (let e0 = int (ilog2 (nat a)) - int (ilog2 (nat b))
      in if (if 0 \<le> e0 then b * 2 ^ nat e0 \<le> a else b \<le> a * 2 ^ nat (- e0))
         then e0 else e0 - 1)"

text \<open>The integer nearest to \<open>num / den\<close> for positive \<open>den\<close>, a tie going to the even one.\<close>

definition round_half_even :: "int \<Rightarrow> int \<Rightarrow> int" where
  "round_half_even num den =
     (let q = num div den; r = num mod den
      in if 2 * r < den then q else if den < 2 * r then q + 1
         else if even q then q else q + 1)"

text \<open>The binary64 number nearest to \<open>num / den\<close> for positive \<open>den\<close>: 53 significant bits.\<close>

definition round_ratio :: "int \<Rightarrow> int \<Rightarrow> pyfloat" where
  "round_ratio num den =
     (if num = 0 then Float 0 0
      else (let a = \<bar>num\<bar>;
                e = floor_log2 a den - 52;
                m = (if 0 \<le> e then round_half_even a (den * 2 ^ nat e)
                     else round_half_even (a * 2 ^ nat (- e)) den)
            in Float (sgn num * m) e))"

text \<open>\<^verbatim>\<open>a / b\<close> on integers, \<^verbatim>\<open>x * k\<close> and \<^verbatim>\<open>x >= k\<close> on a float and an integer.\<close>

definition float_mul_int :: "pyfloat \<Rightarrow> int \<Rightarrow> pyfloat" where
  "float_mul_int x k =
     (case x of Float m e \<Rightarrow>
        if 0 \<le> e then round_ratio (m * k * 2 ^ nat e) 1
        else round_ratio (m * k) (2 ^ nat (- e)))"

definition float_ge_int :: "pyfloat \<Rightarrow> int \<Rightarrow> bool" where
  "float_ge_int x k =
     (case x of Float m e \<Rightarrow>
        if 0 \<le> e then k \<le> m * 2 ^ nat e else k * 2 ^ nat (- e) \<le> m)"

section \<open>The UX validator: results, scores and grade\<close>

datatype error = KeyError string | ZeroDivisionError

text \<open>
  The five status texts of the grade table; each starts with a pictograph that is
  left out here: \<open>EXCELLENT\<close>, \<open>VERY GOOD\<close>, \<open>GOOD\<close>, \<open>NEEDS IMPROVEMENT\<close> and
  \<open>REQUIRES MAJOR WORK\<close>.
\<close>

datatype status = EXCELLENT | VERY_GOOD | GOOD | NEEDS_IMPROVEMENT | REQUIRES_MAJOR_WORK

record ux_summary =
  final_score :: int
  max_score :: int
  percentage :: pyfloat
  grade :: string
  status :: status
  recommendations :: "string list"

record ux_results =
  ux_score :: int
  validations :: "string list"
  material_design :: checks
  accessibility :: checks
  performance :: checks
  animations :: checks
  theming :: checks
  responsive_design :: checks
  user_flows :: checks
  summary :: "ux_summary option"

text \<open>The validator object and its constructor \<^verbatim>\<open>__init__\<close>.\<close>

record ux_validator =
  project_root :: "string list"
  self_ux_score :: int
  self_max_score :: int
  self_validations :: "string list"

definition IndustrialUXValidator :: "string list \<Rightarrow> ux_validator" where
  "IndustrialUXValidator base =
     \<lparr>project_root = base, self_ux_score = 0, self_max_score = 100, self_validations = []\<rparr>"

text \<open>
  Each validation method first computes its check dictionary from the corpus and then
  stores it, turns it into points and adds the points to the running score:
  \<^verbatim>\<open>results[name] = checks; score = sum(checks.values()) * k; results['ux_score'] += score\<close>.
\<close>

definition record_material_design :: "checks \<Rightarrow> ux_results \<Rightarrow> ux_results" where
  "record_material_design checks results =
    (let results = results\<lparr>material_design := checks\<rparr>;
         score = sum_values checks * 4
     in results\<lparr>ux_score := ux_score results + score\<rparr>)"

definition validate_material_design :: "corpus \<Rightarrow> ux_results \<Rightarrow> ux_results" where
  "validate_material_design fs results = record_material_design (material_design_checks fs) results"

definition record_accessibility :: "checks \<Rightarrow> ux_results \<Rightarrow> ux_results" where
  "record_accessibility checks results =
    (let results = results\<lparr>accessibility := checks\<rparr>;
         score = sum_values checks * 3
     in results\<lparr>ux_score := ux_score results + score\<rparr>)"

definition validate_accessibility :: "corpus \<Rightarrow> ux_results \<Rightarrow> ux_results" where
  "validate_accessibility fs results = record_accessibility (accessibility_checks fs) results"

definition record_performance_ux :: "checks \<Rightarrow> ux_results \<Rightarrow> ux_results" where
  "record_performance_ux checks results =
    (let results = results\<lparr>performance := checks\<rparr>;
         score = sum_values checks * 3
     in results\<lparr>ux_score := ux_score results + score\<rparr>)"

definition validate_performance_ux :: "corpus \<Rightarrow> ux_results \<Rightarrow> ux_results" where
  "validate_performance_ux fs results = record_performance_ux (performance_checks fs) results"

definition record_animations :: "checks \<Rightarrow> ux_results \<Rightarrow> ux_results" where
  "record_animations checks results =
    (let results = results\<lparr>animations := checks\<rparr>;
         score = sum_values checks * 2
     in results\<lparr>ux_score := ux_score results + score\<rparr>)"

definition validate_animations :: "corpus \<Rightarrow> ux_results \<Rightarrow> ux_results" where
  "validate_animations fs results = record_animations (animation_checks fs) results"

definition record_theming :: "checks \<Rightarrow> ux_results \<Rightarrow> ux_results" where
  "record_theming checks results =
    (let results = results\<lparr>theming := checks\<rparr>;
         score = sum_values checks * 3
     in results\<lparr>ux_score := ux_score results + score\<rparr>)"

definition validate_theming :: "corpus \<Rightarrow> ux_results \<Rightarrow> ux_results" where
  "validate_theming fs results = record_theming (theming_checks fs) results"

definition record_responsive_design :: "checks \<Rightarrow> ux_results \<Rightarrow> ux_results" where
  "record_responsive_design checks results =
    (let results = results\<lparr>responsive_design := checks\<rparr>;
         score = sum_values checks * 2
     in results\<lparr>ux_score := ux_score results + score\<rparr>)"

definition validate_responsive_design :: "corpus \<Rightarrow> ux_results \<Rightarrow> ux_results" where
  "validate_responsive_design fs results = record_responsive_design (responsive_checks fs) results"

definition record_user_flows :: "checks \<Rightarrow> ux_results \<Rightarrow> ux_results" where
  "record_user_flows checks results =
    (let results = results\<lparr>user_flows := checks\<rparr>;
         score = sum_values checks * 3
     in results\<lparr>ux_score := ux_score results + score\<rparr>)"

definition validate_user_flows :: "corpus \<Rightarrow> ux_results \<Rightarrow> ux_results" where
  "validate_user_flows fs results = record_user_flows (flow_checks fs) results"

text \<open>\<^verbatim>\<open>d[key]\<close> on a check dictionary raises \<^verbatim>\<open>KeyError\<close> for a missing key.\<close>

definition getitem :: "checks \<Rightarrow> string \<Rightarrow> error + bool" where
  "getitem d key = (case map_of d key of None \<Rightarrow> Inl (KeyError key) | Some v \<Rightarrow> Inr v)"

definition bind_result :: "error + 'a \<Rightarrow> ('a \<Rightarrow> error + 'b) \<Rightarrow> error + 'b" where
  "bind_result x f = (case x of Inl e \<Rightarrow> Inl e | Inr v \<Rightarrow> f v)"

text \<open>\<^verbatim>\<open>if not d[key]: recommendations.append(text)\<close>\<close>

definition recommend :: "checks \<Rightarrow> string \<Rightarrow> string \<Rightarrow> string list \<Rightarrow> error + string list" where
  "recommend d key msg recs =
     bind_result (getitem d key) (\<lambda>v. Inr (if \<not> v then recs @ [msg] else recs))"

definition generate_recommendations :: "ux_results \<Rightarrow> error + string list" where
  "generate_recommendations results =
    (let md = material_design results in
     bind_result (recommend md ''theme_implementation''
                    ''Implement comprehensive Material Design 3 theme'' []) (\<lambda>recs.
     bind_result (recommend md ''component_usage''
                    ''Create more premium UI components'' recs) (\<lambda>recs.
     let acc = accessibility results in
     bind_result (recommend acc ''semantic_labels''
                    ''Add semantic labels for screen readers'' recs) (\<lambda>recs.
     bind_result (recommend acc ''focus_management''
                    ''Implement proper focus management'' recs) (\<lambda>recs.
     let perf = performance results in
     bind_result (recommend perf ''image_caching''
                    ''Implement advanced image caching system'' recs) (\<lambda>recs.
     bind_result (recommend perf ''lazy_loading''
                    ''Add lazy loading for better performance'' recs) (\<lambda>recs.
     Inr (take 5 recs))))))))"

text \<open>\<^verbatim>\<open>(final_score / self.max_score) * 100\<close>\<close>

definition true_div :: "int \<Rightarrow> int \<Rightarrow> error + pyfloat" where
  "true_div a b =
     (if b = 0 then Inl ZeroDivisionError else Inr (round_ratio (a * sgn b) \<bar>b\<bar>))"

definition percentage_of :: "int \<Rightarrow> int \<Rightarrow> error + pyfloat" where
  "percentage_of fscore mscore =
     bind_result (true_div fscore mscore) (\<lambda>x. Inr (float_mul_int x 100))"

text \<open>The \<^verbatim>\<open>if\<close>/\<^verbatim>\<open>elif\<close> chain on the percentage.\<close>

definition grade_status :: "pyfloat \<Rightarrow> string \<times> status" where
  "grade_status pct =
     (if float_ge_int pct 90 then (''A+ (Industrial Grade)'', EXCELLENT)
      else if float_ge_int pct 80 then (''A (Professional Grade)'', VERY_GOOD)
      else if float_ge_int pct 70 then (''B+ (Good Standard)'', GOOD)
      else if float_ge_int pct 60 then (''B (Acceptable)'', NEEDS_IMPROVEMENT)
      else (''C (Below Standard)'', REQUIRES_MAJOR_WORK))"

text \<open>\<^verbatim>\<open>final_score = min(results['ux_score'], self.max_score)\<close>\<close>

definition final_score_of :: "ux_validator \<Rightarrow> ux_results \<Rightarrow> int" where
  "final_score_of self results = min (ux_score results) (self_max_score self)"

definition calculate_ux_score :: "ux_validator \<Rightarrow> ux_results \<Rightarrow> error + ux_results" where
  "calculate_ux_score self results =
    (let fscore = final_score_of self results in
     bind_result (percentage_of fscore (self_max_score self)) (\<lambda>pct.
     let (g, st) = grade_status pct in
     bind_result (generate_recommendations results) (\<lambda>recs.
     Inr (results\<lparr>summary := Some
            \<lparr>final_score = fscore, max_score = self_max_score self, percentage = pct,
             grade = g, status = st, recommendations = recs\<rparr>\<rparr>))))"

definition initial_results :: ux_results where
  "initial_results =
     \<lparr>ux_score = 0, validations = [], material_design = [], accessibility = [],
      performance = [], animations = [], theming = [], responsive_design = [],
      user_flows = [], summary = None\<rparr>"

definition validate_complete_ux :: "ux_validator \<Rightarrow> corpus \<Rightarrow> error + ux_results" where
  "validate_complete_ux self fs =
    (let results = initial_results;
         results = validate_material_design fs results;
         results = validate_accessibility fs results;
         results = validate_performance_ux fs results;
         results = validate_animations fs results;
         results = validate_theming fs results;
         results = validate_responsive_design fs results;
         results = validate_user_flows fs results
     in calculate_ux_score self results)"

text \<open>
  The detailed breakdown of \<^verbatim>\<open>main\<close>: the table of categories with their maxima and
  the score \<^verbatim>\<open>sum(checks.values()) * (max_points // len(checks))\<close> of one row. An
  empty dictionary makes the division raise.
\<close>

definition categories :: "ux_results \<Rightarrow> (string \<times> checks \<times> int) list" where
  "categories results =
     [(''Material Design 3'', material_design results, 20),
      (''Accessibility'', accessibility results, 15),
      (''Performance UX'', performance results, 15),
      (''Animations'', animations results, 10),
      (''Theming System'', theming results, 15),
      (''Responsive Design'', responsive_design results, 10),
      (''User Flows'', user_flows results, 15)]"


section \<open>The Dart validator\<close>

record issue =
  issue_file :: string
  issue_line :: "nat option"
  issue_error :: string

record warning =
  warning_file :: string
  warning_text :: string

record dart_summary =
  total_files :: int
  total_issues :: int
  total_warnings :: int
  n_syntax_errors :: int
  n_import_errors :: int
  n_structure_issues :: int
  dart_status :: string

record dart_results =
  files_checked :: int
  syntax_errors :: "issue list"
  import_errors :: "issue list"
  structure_issues :: "issue list"
  warnings :: "warning list"
  dsummary :: "dart_summary option"

record dart_validator =
  dart_root :: "string list"
  self_errors :: "string list"
  self_warnings :: "string list"
  self_files_checked :: int

definition DartValidator :: "string list \<Rightarrow> dart_validator" where
  "DartValidator base =
     \<lparr>dart_root = base, self_errors = [], self_warnings = [], self_files_checked = 0\<rparr>"

text \<open>
  \<^verbatim>\<open>re.search(r'\w+\s*=\s*[^;{]+$', line)\<close>. At a given start the match is forced:
  the run of word characters and the run of spaces are maximal, since the character
  after each must be outside its class; what follows the equals sign must be non-empty
  and free of semicolon and opening brace up to the end. The search tries every start.
\<close>

definition assignment_at :: "string \<Rightarrow> bool" where
  "assignment_at s =
     (takeWhile is_word s \<noteq> [] \<and>
      (case dropWhile is_space (dropWhile is_word s) of
         [] \<Rightarrow> False
       | c # r \<Rightarrow> c = CHR ''='' \<and> r \<noteq> [] \<and> list_all (\<lambda>x. x \<noteq> CHR '';'' \<and> x \<noteq> CHR ''{'') r))"

fun search_assignment :: "string \<Rightarrow> bool" where
  "search_assignment [] = False"
| "search_assignment (c # cs) = (assignment_at (c # cs) \<or> search_assignment cs)"

definition control_keywords :: "string list" where
  "control_keywords = [''if'', ''for'', ''while'', ''switch'', ''try'', ''=>'']"

text \<open>The body of the loop of \<^verbatim>\<open>_check_syntax\<close> for line number \<open>i\<close>: the issues it appends.\<close>

definition syntax_line_issues :: "string \<Rightarrow> nat \<Rightarrow> string \<Rightarrow> issue list" where
  "syntax_line_issues file i raw =
    (let line = strip raw in
     if line = [] \<or> startswith line ''//'' then []
     else
       (if count_char line CHR ''{'' \<noteq> count_char line CHR ''}'' \<and>
           \<bar>count_char line CHR ''{'' - count_char line CHR ''}''\<bar> > 1
        then [\<lparr>issue_file = file, issue_line = Some i,
               issue_error = ''Potential brace mismatch: '' @ take 50 line @ ''...''\<rparr>]
        else []) @
       (if (endswith line ''}'' \<or> endswith line '';'') \<and> str_in ''='' line
           \<and> \<not> startswith line ''//''
        then []
        else if search_assignment line \<and> \<not> endswith line '','' \<and>
                \<not> list_ex (\<lambda>x. str_in x line) control_keywords
        then [\<lparr>issue_file = file, issue_line = Some i,
               issue_error = ''Missing semicolon: '' @ take 50 line @ ''...''\<rparr>]
        else []))"

fun check_syntax_lines :: "string \<Rightarrow> nat \<Rightarrow> string list \<Rightarrow> dart_results \<Rightarrow> dart_results" where
  "check_syntax_lines file i [] results = results"
| "check_syntax_lines file i (l # ls) results =
     check_syntax_lines file (Suc i) ls
       (results\<lparr>syntax_errors := syntax_errors results @ syntax_line_issues file i l\<rparr>)"

definition check_syntax :: "string \<Rightarrow> string \<Rightarrow> dart_results \<Rightarrow> dart_results" where
  "check_syntax file content results = check_syntax_lines file 1 (split_lines content) results"
















definition generate_summary :: "dart_results \<Rightarrow> dart_results" where
  "generate_summary results =
    (let total = int (length (syntax_errors results)) + int (length (import_errors results))
                 + int (length (structure_issues results))
     in results\<lparr>dsummary := Some
          \<lparr>total_files = files_checked results,
           total_issues = total,
           total_warnings = int (length (warnings results)),
           n_syntax_errors = int (length (syntax_errors results)),
           n_import_errors = int (length (import_errors results)),
           n_structure_issues = int (length (structure_issues results)),
           dart_status = (if total = 0 then ''PASS'' else ''ISSUES_FOUND'')\<rparr>\<rparr>)"


definition initial_dart_results :: dart_results where
  "initial_dart_results =
     \<lparr>files_checked = 0, syntax_errors = [], import_errors = [], structure_issues = [],
      warnings = [], dsummary = None\<rparr>"



section \<open>Notions used to state the properties\<close>

text \<open>The points a validation method adds to the running score for a corpus.\<close>

definition awarded :: "(corpus \<Rightarrow> ux_results \<Rightarrow> ux_results) \<Rightarrow> corpus \<Rightarrow> int" where
  "awarded validate fs = ux_score (validate fs initial_results) - ux_score initial_results"

definition validation_methods :: "(corpus \<Rightarrow> ux_results \<Rightarrow> ux_results) list" where
  "validation_methods =
     [validate_material_design, validate_accessibility, validate_performance_ux,
      validate_animations, validate_theming, validate_responsive_design,
      validate_user_flows]"

text \<open>The results after the seven validation methods, before the final score is computed.\<close>

definition checked_results :: "corpus \<Rightarrow> ux_results" where
  "checked_results fs =
     validate_user_flows fs (validate_responsive_design fs (validate_theming fs
       (validate_animations fs (validate_performance_ux fs (validate_accessibility fs
         (validate_material_design fs initial_results))))))"


text \<open>
  The recommendation rule of the specification: a catalog of remediation texts in
  declared order, each keyed by a category and a check; the texts of the unsatisfied
  checks are collected in catalog order and cut to five.
\<close>

definition recommendation_catalog :: "((ux_results \<Rightarrow> checks) \<times> string \<times> string) list" where
  "recommendation_catalog =
     [(material_design, ''theme_implementation'',
         ''Implement comprehensive Material Design 3 theme''),
      (material_design, ''component_usage'', ''Create more premium UI components''),
      (accessibility, ''semantic_labels'', ''Add semantic labels for screen readers''),
      (accessibility, ''focus_management'', ''Implement proper focus management''),
      (performance, ''image_caching'', ''Implement advanced image caching system''),
      (performance, ''lazy_loading'', ''Add lazy loading for better performance'')]"

definition unsatisfied ::
    "ux_results \<Rightarrow> (ux_results \<Rightarrow> checks) \<times> string \<times> string \<Rightarrow> bool" where
  "unsatisfied r entry = (case entry of (category, key, msg) \<Rightarrow> map_of (category r) key = Some False)"

definition spec_recommendations :: "ux_results \<Rightarrow> string list" where
  "spec_recommendations r =
     take 5 (map (\<lambda>(category, key, msg). msg) (filter (unsatisfied r) recommendation_catalog))"

text \<open>The results as a function of the seven check dictionaries alone.\<close>

definition scored ::
    "checks \<Rightarrow> checks \<Rightarrow> checks \<Rightarrow> checks \<Rightarrow> checks \<Rightarrow> checks \<Rightarrow> checks \<Rightarrow> ux_results" where
  "scored md acc perf anim th resp uf =
     record_user_flows uf (record_responsive_design resp (record_theming th
       (record_animations anim (record_performance_ux perf (record_accessibility acc
         (record_material_design md initial_results))))))"

text \<open>The issues the loop of the syntax check appends for the lines \<open>ls\<close>, numbered from \<open>i\<close>.\<close>

fun syntax_issues_from :: "string \<Rightarrow> nat \<Rightarrow> string list \<Rightarrow> issue list" where
  "syntax_issues_from file i [] = []"
| "syntax_issues_from file i (l # ls) =
     syntax_line_issues file i l @ syntax_issues_from file (Suc i) ls"

text \<open>
  The grade table of the specification: thresholds on the percentage from the highest
  down, the first one met gives grade and status, and the lowest grade is the default.
\<close>

definition grade_table :: "(rat \<times> string \<times> status) list" where
  "grade_table =
     [(90, ''A+ (Industrial Grade)'', EXCELLENT),
      (80, ''A (Professional Grade)'', VERY_GOOD),
      (70, ''B+ (Good Standard)'', GOOD),
      (60, ''B (Acceptable)'', NEEDS_IMPROVEMENT)]"

definition grade_by_table :: "rat \<Rightarrow> string \<times> status" where
  "grade_by_table pct =
     (case find (\<lambda>(threshold, g, st). threshold \<le> pct) grade_table of
        Some (threshold, g, st) \<Rightarrow> (g, st)
      | None \<Rightarrow> (''C (Below Standard)'', REQUIRES_MAJOR_WORK))"

text \<open>
  The floating-point percentage of the score \<open>n\<close> out of 100 meets a threshold exactly
  when \<open>n\<close> does.
\<close>

definition percent_exact :: "int \<Rightarrow> bool" where
  "percent_exact n =
     (case float_mul_int (round_ratio n 100) 100 of
        Float m e \<Rightarrow>
          float_ge_int (Float m e) 90 = (90 \<le> n) \<and>
          float_ge_int (Float m e) 80 = (80 \<le> n) \<and>
          float_ge_int (Float m e) 70 = (70 \<le> n) \<and>
          float_ge_int (Float m e) 60 = (60 \<le> n))"

text \<open>A sample project in which every check of every category is satisfied.\<close>

definition full_text :: string where
  "full_text = concat
     [''Color(0xFF112233)'', ''Color(0xFF445566)'', ''Color(0xFF778899)'',
      ''elevation:'', ''Semantics('', ''FocusNode'', ''MediaQuery'', ''MergeSemantics'',
      ''ThemeData.dark'', ''FutureBuilder'', ''dispose()'', ''initState()'', ''Tween'',
      ''onTap'', ''Animation'', ''SlideTransition'', ''LinearProgressIndicator'',
      ''GestureDetector'', ''Hero('', ''Theme.of(context)'', ''ThemeMode'', ''Color(0x'',
      ''MediaQuery.of(context).size'', ''Orientation.'', ''SafeArea('', ''Wrap('',
      ''constraints'', ''intro'', ''try {'', ''catch'', ''Navigator.'', ''SnackBar'']"

definition full_corpus :: corpus where
  "full_corpus =
     [\<lparr>path_dir = [], path_name = ''pubspec.yaml'', read_text = Inr ''fonts:''\<rparr>,
      \<lparr>path_dir = [''lib''], path_name = ''theme.dart'', read_text = Inr full_text\<rparr>,
      \<lparr>path_dir = [''lib''], path_name = ''color.dart'', read_text = Inr []\<rparr>,
      \<lparr>path_dir = [''lib''], path_name = ''typography.dart'', read_text = Inr []\<rparr>,
      \<lparr>path_dir = [''lib''], path_name = ''premium_a.dart'', read_text = Inr []\<rparr>,
      \<lparr>path_dir = [''lib''], path_name = ''premium_b.dart'', read_text = Inr []\<rparr>,
      \<lparr>path_dir = [''lib''], path_name = ''premium_c.dart'', read_text = Inr []\<rparr>,
      \<lparr>path_dir = [''lib''], path_name = ''cache.dart'', read_text = Inr []\<rparr>,
      \<lparr>path_dir = [''lib''], path_name = ''performance.dart'', read_text = Inr []\<rparr>,
      \<lparr>path_dir = [''lib''], path_name = ''auth.dart'', read_text = Inr []\<rparr>]"

section \<open>Check dictionaries keep their five keys\<close>

lemma update_keys_present:
  "k \<in> set (map fst c) \<Longrightarrow> map fst (AList.update k v c) = map fst c"
  by (induction c) auto

lemma mark_keys: "k \<in> set (map fst c) \<Longrightarrow> map fst (mark b k c) = map fst c"
  by (simp add: mark_def update_keys_present)

lemma scan_files_keys:
  assumes "\<And>t c. map fst c = ks \<Longrightarrow> map fst (body t c) = ks"
  shows "map fst c = ks \<Longrightarrow> map fst (scan_files body fs c) = ks"
proof (induction fs arbitrary: c)
  case Nil
  then show ?case by simp
next
  case (Cons f fs)
  then show ?case using assms by (cases "read_text f") auto
qed

lemma material_design_keys:
  "map fst (material_design_checks fs) =
     [''theme_implementation'', ''component_usage'', ''color_system'', ''typography'',
      ''elevation_shadows'']"
  by (simp add: material_design_checks_def Let_def mark_keys update_keys_present)

lemma accessibility_keys:
  "map fst (accessibility_checks fs) =
     [''semantic_labels'', ''focus_management'', ''color_contrast'', ''text_scaling'',
      ''screen_reader_support'']"
proof -
  have "map fst (scan_files accessibility_file fs' [(''semantic_labels'', False),
          (''focus_management'', False), (''color_contrast'', False),
          (''text_scaling'', False), (''screen_reader_support'', False)]) =
        [''semantic_labels'', ''focus_management'', ''color_contrast'', ''text_scaling'',
         ''screen_reader_support'']" for fs'
    by (rule scan_files_keys) (simp_all add: accessibility_file_def Let_def mark_keys)
  then show ?thesis by (simp add: accessibility_checks_def Let_def mark_keys)
qed

lemma performance_keys:
  "map fst (performance_checks fs) =
     [''image_caching'', ''lazy_loading'', ''performance_monitoring'',
      ''memory_optimization'', ''smooth_animations'']"
  unfolding performance_checks_def Let_def
  by (rule scan_files_keys) (simp_all add: performance_file_def Let_def mark_keys)

lemma animation_keys:
  "map fst (animation_checks fs) =
     [''micro_interactions'', ''page_transitions'', ''loading_animations'',
      ''gesture_animations'', ''hero_animations'']"
  unfolding animation_checks_def Let_def
  by (rule scan_files_keys) (simp_all add: animation_file_def Let_def mark_keys)

lemma theming_keys:
  "map fst (theming_checks fs) =
     [''dark_light_theme'', ''consistent_colors'', ''custom_fonts'', ''theme_switching'',
      ''brand_consistency'']"
  unfolding theming_checks_def Let_def
  by (rule scan_files_keys) (simp_all add: theming_file_def Let_def mark_keys)

lemma responsive_keys:
  "map fst (responsive_checks fs) =
     [''screen_size_adaptation'', ''orientation_handling'', ''safe_area_usage'',
      ''flexible_layouts'', ''breakpoint_handling'']"
  unfolding responsive_checks_def Let_def
  by (rule scan_files_keys) (simp_all add: responsive_file_def Let_def mark_keys)

lemma flow_keys:
  "map fst (flow_checks fs) =
     [''onboarding_flow'', ''authentication_flow'', ''error_handling_flow'',
      ''navigation_flow'', ''feedback_flow'']"
  unfolding flow_checks_def Let_def
  by (rule scan_files_keys) (simp_all add: flow_file_def Let_def mark_keys)

lemma keys_length: "map fst c = ks \<Longrightarrow> length c = length ks"
  by (metis length_map)

lemmas checks_keys = material_design_keys accessibility_keys performance_keys
  animation_keys theming_keys responsive_keys flow_keys

lemma checks_length:
  "length (material_design_checks fs) = 5" "length (accessibility_checks fs) = 5"
  "length (performance_checks fs) = 5" "length (animation_checks fs) = 5"
  "length (theming_checks fs) = 5" "length (responsive_checks fs) = 5"
  "length (flow_checks fs) = 5"
  using checks_keys [of fs, THEN keys_length] by simp_all

lemma sum_values_bounds: "0 \<le> sum_values c \<and> sum_values c \<le> int (length c)"
  by (induction c) (auto simp: sum_values_def)

lemma getitem_present:
  "k \<in> set (map fst c) \<Longrightarrow> getitem c k = Inr (the (map_of c k))"
  by (cases "map_of c k") (auto simp: getitem_def map_of_eq_None_iff)

section \<open>Scores of the categories\<close>

lemma record_fields:
  "ux_score (record_material_design c r) = ux_score r + sum_values c * 4"
  "ux_score (record_accessibility c r) = ux_score r + sum_values c * 3"
  "ux_score (record_performance_ux c r) = ux_score r + sum_values c * 3"
  "ux_score (record_animations c r) = ux_score r + sum_values c * 2"
  "ux_score (record_theming c r) = ux_score r + sum_values c * 3"
  "ux_score (record_responsive_design c r) = ux_score r + sum_values c * 2"
  "ux_score (record_user_flows c r) = ux_score r + sum_values c * 3"
  by (simp_all add: record_material_design_def record_accessibility_def
      record_performance_ux_def record_animations_def record_theming_def
      record_responsive_design_def record_user_flows_def Let_def)

lemmas validate_defs = validate_material_design_def validate_accessibility_def
  validate_performance_ux_def validate_animations_def validate_theming_def
  validate_responsive_design_def validate_user_flows_def

lemmas record_defs = record_material_design_def record_accessibility_def
  record_performance_ux_def record_animations_def record_theming_def
  record_responsive_design_def record_user_flows_def

lemma awarded_values:
  "awarded validate_material_design fs = 4 * sum_values (material_design_checks fs)"
  "awarded validate_accessibility fs = 3 * sum_values (accessibility_checks fs)"
  "awarded validate_performance_ux fs = 3 * sum_values (performance_checks fs)"
  "awarded validate_animations fs = 2 * sum_values (animation_checks fs)"
  "awarded validate_theming fs = 3 * sum_values (theming_checks fs)"
  "awarded validate_responsive_design fs = 2 * sum_values (responsive_checks fs)"
  "awarded validate_user_flows fs = 3 * sum_values (flow_checks fs)"
  by (simp_all add: awarded_def validate_defs record_fields)


lemma checked_results_fields:
  "material_design (checked_results fs) = material_design_checks fs"
  "accessibility (checked_results fs) = accessibility_checks fs"
  "performance (checked_results fs) = performance_checks fs"
  "animations (checked_results fs) = animation_checks fs"
  "theming (checked_results fs) = theming_checks fs"
  "responsive_design (checked_results fs) = responsive_checks fs"
  "user_flows (checked_results fs) = flow_checks fs"
  "summary (checked_results fs) = None"
  by (simp_all add: checked_results_def validate_defs record_defs Let_def initial_results_def)

lemma checked_results_score:
  "ux_score (checked_results fs) = sum_list (map (\<lambda>v. awarded v fs) validation_methods)"
  by (simp add: checked_results_def validation_methods_def awarded_values validate_defs
      record_fields initial_results_def)

lemma validate_complete_ux_unfold:
  "validate_complete_ux self fs = calculate_ux_score self (checked_results fs)"
  by (simp add: validate_complete_ux_def checked_results_def Let_def)

lemma categories_checked:
  "categories (r\<lparr>summary := s\<rparr>) = categories r"
  by (simp add: categories_def)


section \<open>Recommendations\<close>

lemma recommend_present:
  "map_of d key = Some v \<Longrightarrow>
     recommend d key msg recs = Inr (if \<not> v then recs @ [msg] else recs)"
  by (simp add: recommend_def getitem_def bind_result_def)

lemma generate_recommendations_spec:
  assumes "map_of (material_design r) ''theme_implementation'' = Some v1"
    and "map_of (material_design r) ''component_usage'' = Some v2"
    and "map_of (accessibility r) ''semantic_labels'' = Some v3"
    and "map_of (accessibility r) ''focus_management'' = Some v4"
    and "map_of (performance r) ''image_caching'' = Some v5"
    and "map_of (performance r) ''lazy_loading'' = Some v6"
  shows "generate_recommendations r = Inr (spec_recommendations r)"
  using assms
  by (cases v1; cases v2; cases v3; cases v4; cases v5; cases v6)
     (simp_all add: generate_recommendations_def recommend_present bind_result_def
       spec_recommendations_def recommendation_catalog_def unsatisfied_def Let_def)

lemma map_of_present: "k \<in> set (map fst c) \<Longrightarrow> \<exists>v. map_of c k = Some v"
  by (cases "map_of c k") (auto simp: map_of_eq_None_iff)

lemma recommendations_checked:
  "generate_recommendations (checked_results fs) = Inr (spec_recommendations (checked_results fs))"
proof -
  obtain v1 v2 where "map_of (material_design_checks fs) ''theme_implementation'' = Some v1"
      "map_of (material_design_checks fs) ''component_usage'' = Some v2"
    using map_of_present [of _ "material_design_checks fs"] by (fastforce simp: material_design_keys)
  moreover obtain v3 v4 where "map_of (accessibility_checks fs) ''semantic_labels'' = Some v3"
      "map_of (accessibility_checks fs) ''focus_management'' = Some v4"
    using map_of_present [of _ "accessibility_checks fs"] by (fastforce simp: accessibility_keys)
  moreover obtain v5 v6 where "map_of (performance_checks fs) ''image_caching'' = Some v5"
      "map_of (performance_checks fs) ''lazy_loading'' = Some v6"
    using map_of_present [of _ "performance_checks fs"] by (fastforce simp: performance_keys)
  ultimately show ?thesis
    by (intro generate_recommendations_spec) (simp_all add: checked_results_fields)
qed

lemma calculate_ux_score_value:
  assumes "generate_recommendations r = Inr recs"
  shows "calculate_ux_score (IndustrialUXValidator b) r =
    Inr (r\<lparr>summary := Some
      \<lparr>final_score = min (ux_score r) 100, max_score = 100,
       percentage = float_mul_int (round_ratio (min (ux_score r) 100) 100) 100,
       grade = fst (grade_status (float_mul_int (round_ratio (min (ux_score r) 100) 100) 100)),
       status = snd (grade_status (float_mul_int (round_ratio (min (ux_score r) 100) 100) 100)),
       recommendations = recs\<rparr>\<rparr>)"
  using assms
  by (simp add: calculate_ux_score_def final_score_of_def IndustrialUXValidator_def
      percentage_of_def true_div_def bind_result_def case_prod_unfold Let_def)

lemmas validate_complete_ux_value =
  calculate_ux_score_value [OF recommendations_checked, folded validate_complete_ux_unfold]

section \<open>The claims about scores\<close>


text \<open>
  C2. The points of every category lie between 0 and the maximum of the category, the
  maxima sum to the overall maximum 100 of the validator, and every run returns a
  summary whose final score is the smaller of the sum of the category points and 100,
  so that it never exceeds the maximum.
\<close>

theorem score_bounds:
  "list_all (\<lambda>(validate, max_points). 0 \<le> awarded validate fs \<and> awarded validate fs \<le> max_points)
     (zip validation_methods [20, 15, 15, 10, 15, 10, 15]) \<and>
   sum_list (map (\<lambda>(name, checks, max_points). max_points) (categories r))
     = self_max_score (IndustrialUXValidator b) \<and>
   self_max_score (IndustrialUXValidator b) = 100 \<and>
   (\<exists>r' s. validate_complete_ux (IndustrialUXValidator b) fs = Inr r' \<and> summary r' = Some s \<and>
      final_score s = min (sum_list (map (\<lambda>v. awarded v fs) validation_methods)) 100 \<and>
      max_score s = 100 \<and> final_score s \<le> max_score s)"
proof -
  have b: "0 \<le> sum_values c \<and> sum_values c \<le> 5" if "length c = 5" for c
    using sum_values_bounds [of c] that by simp
  have "list_all (\<lambda>(validate, max_points). 0 \<le> awarded validate fs \<and> awarded validate fs \<le> max_points)
     (zip validation_methods [20, 15, 15, 10, 15, 10, 15])"
    using b [OF checks_length(1), of fs] b [OF checks_length(2), of fs]
      b [OF checks_length(3), of fs] b [OF checks_length(4), of fs]
      b [OF checks_length(5), of fs] b [OF checks_length(6), of fs]
      b [OF checks_length(7), of fs]
    by (simp add: validation_methods_def awarded_values)
  moreover have "sum_list (map (\<lambda>(name, checks, max_points). max_points) (categories r))
     = self_max_score (IndustrialUXValidator b)"
    by (simp add: categories_def IndustrialUXValidator_def)
  moreover have "self_max_score (IndustrialUXValidator b) = 100"
    by (simp add: IndustrialUXValidator_def)
  moreover have "\<exists>r' s. validate_complete_ux (IndustrialUXValidator b) fs = Inr r' \<and>
      summary r' = Some s \<and>
      final_score s = min (sum_list (map (\<lambda>v. awarded v fs) validation_methods)) 100 \<and>
      max_score s = 100 \<and> final_score s \<le> max_score s"
    by (simp add: validate_complete_ux_value checked_results_score)
  ultimately show ?thesis by blast
qed


text \<open>
  C8. Setting one check that was false to true, all other outcomes unchanged, raises
  the number of satisfied checks of its dictionary by one, adds to the points of its
  category the fixed non-negative increment of that category, and does not lower the
  final score, whichever of the seven dictionaries the check belongs to.
\<close>

lemma sum_values_flip:
  "map_of c k = Some False \<Longrightarrow> sum_values (AList.update k True c) = sum_values c + 1"
  by (induction c) (auto simp: sum_values_def)

lemma scored_score:
  "ux_score (scored md acc perf anim th resp uf) =
     4 * sum_values md + 3 * sum_values acc + 3 * sum_values perf + 2 * sum_values anim
     + 3 * sum_values th + 2 * sum_values resp + 3 * sum_values uf"
  by (simp add: scored_def record_fields initial_results_def)

lemma checked_results_scored:
  "checked_results fs = scored (material_design_checks fs) (accessibility_checks fs)
     (performance_checks fs) (animation_checks fs) (theming_checks fs)
     (responsive_checks fs) (flow_checks fs)"
  by (simp add: checked_results_def scored_def validate_defs)

theorem flip_monotone:
  assumes "map_of c k = Some False"
  shows "sum_values (AList.update k True c) = sum_values c + 1 \<and>
    list_all (\<lambda>(record, increment). 0 \<le> increment \<and>
        ux_score (record (AList.update k True c) r) - ux_score r
          = (ux_score (record c r) - ux_score r) + increment)
      [(record_material_design, 4), (record_accessibility, 3), (record_performance_ux, 3),
       (record_animations, 2), (record_theming, 3), (record_responsive_design, 2),
       (record_user_flows, 3)] \<and>
    final_score_of self (scored c acc perf anim th resp uf)
      \<le> final_score_of self (scored (AList.update k True c) acc perf anim th resp uf) \<and>
    final_score_of self (scored md c perf anim th resp uf)
      \<le> final_score_of self (scored md (AList.update k True c) perf anim th resp uf) \<and>
    final_score_of self (scored md acc c anim th resp uf)
      \<le> final_score_of self (scored md acc (AList.update k True c) anim th resp uf) \<and>
    final_score_of self (scored md acc perf c th resp uf)
      \<le> final_score_of self (scored md acc perf (AList.update k True c) th resp uf) \<and>
    final_score_of self (scored md acc perf anim c resp uf)
      \<le> final_score_of self (scored md acc perf anim (AList.update k True c) resp uf) \<and>
    final_score_of self (scored md acc perf anim th c uf)
      \<le> final_score_of self (scored md acc perf anim th (AList.update k True c) uf) \<and>
    final_score_of self (scored md acc perf anim th resp c)
      \<le> final_score_of self (scored md acc perf anim th resp (AList.update k True c))"
proof -
  note flip = sum_values_flip [OF assms]
  have mono: "final_score_of self x \<le> final_score_of self y" if "ux_score x \<le> ux_score y"
    for x y using that by (simp add: final_score_of_def min.coboundedI1)
  have "list_all (\<lambda>(record, increment). 0 \<le> increment \<and>
        ux_score (record (AList.update k True c) r) - ux_score r
          = (ux_score (record c r) - ux_score r) + increment)
      [(record_material_design, 4), (record_accessibility, 3), (record_performance_ux, 3),
       (record_animations, 2), (record_theming, 3), (record_responsive_design, 2),
       (record_user_flows, 3)]"
    by (simp add: flip record_fields)
  moreover have "final_score_of self (scored c acc perf anim th resp uf)
      \<le> final_score_of self (scored (AList.update k True c) acc perf anim th resp uf)"
    by (rule mono) (simp add: scored_score flip)
  moreover have "final_score_of self (scored md c perf anim th resp uf)
      \<le> final_score_of self (scored md (AList.update k True c) perf anim th resp uf)"
    by (rule mono) (simp add: scored_score flip)
  moreover have "final_score_of self (scored md acc c anim th resp uf)
      \<le> final_score_of self (scored md acc (AList.update k True c) anim th resp uf)"
    by (rule mono) (simp add: scored_score flip)
  moreover have "final_score_of self (scored md acc perf c th resp uf)
      \<le> final_score_of self (scored md acc perf (AList.update k True c) th resp uf)"
    by (rule mono) (simp add: scored_score flip)
  moreover have "final_score_of self (scored md acc perf anim c resp uf)
      \<le> final_score_of self (scored md acc perf anim (AList.update k True c) resp uf)"
    by (rule mono) (simp add: scored_score flip)
  moreover have "final_score_of self (scored md acc perf anim th c uf)
      \<le> final_score_of self (scored md acc perf anim th (AList.update k True c) uf)"
    by (rule mono) (simp add: scored_score flip)
  moreover have "final_score_of self (scored md acc perf anim th resp c)
      \<le> final_score_of self (scored md acc perf anim th resp (AList.update k True c))"
    by (rule mono) (simp add: scored_score flip)
  ultimately show ?thesis using flip by blast
qed

theorem flip_monotone_witness:
  "map_of [(''hero_animations'', False)] ''hero_animations'' = Some False \<and>
   sum_values (AList.update ''hero_animations'' True [(''hero_animations'', False)]) = 1 \<and>
   final_score_of (IndustrialUXValidator []) (scored [] [] [] [(''hero_animations'', False)] [] [] [])
     \<le> final_score_of (IndustrialUXValidator [])
          (scored [] [] [] (AList.update ''hero_animations'' True [(''hero_animations'', False)]) [] [] [])"
  using flip_monotone [where c = "[(''hero_animations'', False)]" and k = "''hero_animations''"
      and self = "IndustrialUXValidator []" and md = "[]" and acc = "[]" and perf = "[]"
      and th = "[]" and resp = "[]" and uf = "[]" and anim = "[]" and r = initial_results]
  by (simp add: sum_values_def)


text \<open>
  C9. The recommendations are the remediation texts of the unsatisfied checks of the
  catalog (two of Material Design, then two of accessibility, then two of
  performance), in catalog order and cut to at most five entries; they depend on the
  results only through which of these checks are unsatisfied, and every run reports
  exactly this list.
\<close>

lemma recommend_cases:
  "recommend d key msg recs =
     (case map_of d key of None \<Rightarrow> Inl (KeyError key)
      | Some v \<Rightarrow> Inr (if \<not> v then recs @ [msg] else recs))"
  by (simp add: recommend_def getitem_def bind_result_def split: option.splits)

lemma bind_result_Inr: "bind_result x f = Inr y \<Longrightarrow> \<exists>v. x = Inr v \<and> f v = Inr y"
  by (cases x) (simp_all add: bind_result_def)

lemma recommend_Inr: "recommend d key msg recs = Inr y \<Longrightarrow> \<exists>v. map_of d key = Some v"
  by (simp add: recommend_cases split: option.splits)

lemma generate_recommendations_keys:
  assumes "generate_recommendations r = Inr recs"
  shows "\<exists>v1 v2 v3 v4 v5 v6.
    map_of (material_design r) ''theme_implementation'' = Some v1 \<and>
    map_of (material_design r) ''component_usage'' = Some v2 \<and>
    map_of (accessibility r) ''semantic_labels'' = Some v3 \<and>
    map_of (accessibility r) ''focus_management'' = Some v4 \<and>
    map_of (performance r) ''image_caching'' = Some v5 \<and>
    map_of (performance r) ''lazy_loading'' = Some v6"
  using assms
  by (auto simp: generate_recommendations_def Let_def dest!: bind_result_Inr recommend_Inr)

lemma spec_recommendations_summary:
  "spec_recommendations (r\<lparr>summary := s\<rparr>) = spec_recommendations r"
  by (simp add: spec_recommendations_def recommendation_catalog_def unsatisfied_def)

theorem recommendations_rule:
  "(generate_recommendations r = Inr recs \<longrightarrow> recs = spec_recommendations r) \<and>
   length (spec_recommendations r) \<le> 5 \<and>
   ((\<forall>entry \<in> set recommendation_catalog. unsatisfied r entry = unsatisfied r2 entry)
      \<longrightarrow> spec_recommendations r = spec_recommendations r2) \<and>
   (\<exists>r' s. validate_complete_ux (IndustrialUXValidator b) fs = Inr r' \<and> summary r' = Some s \<and>
      recommendations s = spec_recommendations r')"
proof -
  have "recs = spec_recommendations r" if run: "generate_recommendations r = Inr recs"
  proof -
    from generate_recommendations_keys [OF run] obtain v1 v2 v3 v4 v5 v6 where
      "map_of (material_design r) ''theme_implementation'' = Some v1"
      "map_of (material_design r) ''component_usage'' = Some v2"
      "map_of (accessibility r) ''semantic_labels'' = Some v3"
      "map_of (accessibility r) ''focus_management'' = Some v4"
      "map_of (performance r) ''image_caching'' = Some v5"
      "map_of (performance r) ''lazy_loading'' = Some v6"
      by blast
    then have "generate_recommendations r = Inr (spec_recommendations r)"
      by (rule generate_recommendations_spec)
    with run show ?thesis by simp
  qed
  moreover have "length (spec_recommendations r) \<le> 5"
    by (simp add: spec_recommendations_def)
  moreover have "spec_recommendations r = spec_recommendations r2"
    if "\<forall>entry \<in> set recommendation_catalog. unsatisfied r entry = unsatisfied r2 entry"
  proof -
    from that have "filter (unsatisfied r) recommendation_catalog
        = filter (unsatisfied r2) recommendation_catalog"
      by (intro filter_cong) auto
    then show ?thesis by (simp add: spec_recommendations_def)
  qed
  moreover have "\<exists>r' s. validate_complete_ux (IndustrialUXValidator b) fs = Inr r' \<and>
      summary r' = Some s \<and> recommendations s = spec_recommendations r'"
    by (simp add: validate_complete_ux_value spec_recommendations_summary)
  ultimately show ?thesis by blast
qed

theorem recommendations_rule_witness:
  "generate_recommendations (checked_results []) =
     Inr [''Implement comprehensive Material Design 3 theme'',
          ''Create more premium UI components'',
          ''Add semantic labels for screen readers'',
          ''Implement proper focus management'',
          ''Implement advanced image caching system''] \<and>
   spec_recommendations (checked_results []) =
     [''Implement comprehensive Material Design 3 theme'',
      ''Create more premium UI components'',
      ''Add semantic labels for screen readers'',
      ''Implement proper focus management'',
      ''Implement advanced image caching system'']"
proof -
  have run: "generate_recommendations (checked_results []) =
     Inr [''Implement comprehensive Material Design 3 theme'',
          ''Create more premium UI components'',
          ''Add semantic labels for screen readers'',
          ''Implement proper focus management'',
          ''Implement advanced image caching system'']"
    by (simp add: generate_recommendations_def recommend_def getitem_def bind_result_def
        checked_results_fields material_design_checks_def accessibility_checks_def
        performance_checks_def rglob_def mark_def Let_def)
  with recommendations_rule [of "checked_results []" _ "checked_results []" "[]" "[]"]
  show ?thesis by simp
qed

section \<open>The claims about the Dart validator\<close>

text \<open>
  C10. The summary status is PASS exactly when the syntax errors, import errors and
  structure issues together number zero, and the exit code is 0 in exactly that case.
  Warnings are counted on their own and change neither status nor exit code; the
  structure check records a naming mismatch as at most one warning, leaves the syntax
  and import errors alone, and its structure issues depend neither on the file name
  nor on the warnings.
\<close>

lemma generate_summary_lists:
  "syntax_errors (generate_summary r) = syntax_errors r"
  "import_errors (generate_summary r) = import_errors r"
  "structure_issues (generate_summary r) = structure_issues r"
  "warnings (generate_summary r) = warnings r"
  by (simp_all add: generate_summary_def Let_def)


text \<open>
  C6. If line number \<open>n + 1\<close> of a file is \<open>x = compute()\<close>, possibly with white space
  around it, then among the issues the syntax check appends for this file exactly one
  carries that line number: the missing-semicolon issue, attributed to the file.
\<close>

lemma check_syntax_lines_errors:
  "syntax_errors (check_syntax_lines file i ls r) = syntax_errors r @ syntax_issues_from file i ls"
  by (induction ls arbitrary: i r) simp_all

lemma syntax_line_issues_number:
  "e \<in> set (syntax_line_issues file i l) \<Longrightarrow> issue_line e = Some i"
  by (auto simp: syntax_line_issues_def Let_def split: if_splits)

lemma syntax_issues_from_number:
  "e \<in> set (syntax_issues_from file i ls) \<Longrightarrow> \<exists>j. issue_line e = Some j \<and> i \<le> j"
proof (induction ls arbitrary: i)
  case Nil
  then show ?case by simp
next
  case (Cons l ls)
  then show ?case
    using syntax_line_issues_number [of e "file" i l] Suc_leD by fastforce
qed

lemma filter_syntax_issues_from:
  "n < length ls \<Longrightarrow>
     filter (\<lambda>e. issue_line e = Some (i + n)) (syntax_issues_from file i ls)
       = syntax_line_issues file (i + n) (ls ! n)"
proof (induction ls arbitrary: i n)
  case Nil
  then show ?case by simp
next
  case (Cons l ls)
  show ?case
  proof (cases n)
    case 0
    have "filter (\<lambda>e. issue_line e = Some i) (syntax_line_issues file i l)
        = syntax_line_issues file i l"
      by (simp add: syntax_line_issues_number)
    moreover have "filter (\<lambda>e. issue_line e = Some i) (syntax_issues_from file (Suc i) ls) = []"
      using syntax_issues_from_number [of _ "file" "Suc i" ls]
      by (fastforce simp: filter_empty_conv)
    ultimately show ?thesis using 0 by simp
  next
    case (Suc m)
    have "filter (\<lambda>e. issue_line e = Some (i + n)) (syntax_line_issues file i l) = []"
      using syntax_line_issues_number [of _ "file" i l] Suc by (fastforce simp: filter_empty_conv)
    moreover have "filter (\<lambda>e. issue_line e = Some (Suc i + m)) (syntax_issues_from file (Suc i) ls)
        = syntax_line_issues file (Suc i + m) (ls ! m)"
      using Cons.IH [of m "Suc i"] Cons.prems Suc by simp
    ultimately show ?thesis using Suc by simp
  qed
qed

lemma compute_line_issues:
  assumes "strip raw = ''x = compute()''"
  shows "syntax_line_issues file i raw =
     [\<lparr>issue_file = file, issue_line = Some i,
       issue_error = ''Missing semicolon: x = compute()...''\<rparr>]"
  by (simp add: syntax_line_issues_def assms startswith_def endswith_def count_char_def
      assignment_at_def is_word_def is_space_def is_upper_ascii_def is_lower_ascii_def
      is_digit_ascii_def control_keywords_def Let_def)

theorem missing_semicolon_issue:
  assumes "n < length (split_lines content)"
    and "strip (split_lines content ! n) = ''x = compute()''"
  shows "filter (\<lambda>e. issue_line e = Some (Suc n))
           (drop (length (syntax_errors r)) (syntax_errors (check_syntax file content r)))
         = [\<lparr>issue_file = file, issue_line = Some (Suc n),
             issue_error = ''Missing semicolon: x = compute()...''\<rparr>]"
  using filter_syntax_issues_from [OF assms(1), of 1 "file"] compute_line_issues [OF assms(2)]
  by (simp add: check_syntax_def check_syntax_lines_errors)

lemma split_lines_example:
  "split_lines (''void main() {'' @ [CHR 0x0A] @ ''  x = compute()'' @ [CHR 0x0A] @ ''}'')
     = [''void main() {'', ''  x = compute()'', ''}'']"
  by simp

theorem missing_semicolon_issue_witness:
  "1 < length (split_lines (''void main() {'' @ [CHR 0x0A] @ ''  x = compute()'' @ [CHR 0x0A] @ ''}'')) \<and>
   strip (split_lines (''void main() {'' @ [CHR 0x0A] @ ''  x = compute()'' @ [CHR 0x0A] @ ''}'') ! 1)
     = ''x = compute()'' \<and>
   filter (\<lambda>e. issue_line e = Some 2)
     (syntax_errors (check_syntax ''lib/main.dart''
        (''void main() {'' @ [CHR 0x0A] @ ''  x = compute()'' @ [CHR 0x0A] @ ''}'')
        initial_dart_results))
     = [\<lparr>issue_file = ''lib/main.dart'', issue_line = Some 2,
         issue_error = ''Missing semicolon: x = compute()...''\<rparr>]"
proof -
  have s: "strip ''  x = compute()'' = ''x = compute()''"
    by (simp add: strip_def is_space_def)
  show ?thesis
    using missing_semicolon_issue [of 1
        "''void main() {'' @ [CHR 0x0A] @ ''  x = compute()'' @ [CHR 0x0A] @ ''}''"
        initial_dart_results "''lib/main.dart''"]
    unfolding split_lines_example
    by (simp add: s initial_dart_results_def numeral_2_eq_2)
qed

section \<open>The grade\<close>

lemma float_ge_int_value: "float_ge_int p k = (of_int k \<le> float_value p)"
proof (cases p)
  case (Float m e)
  show ?thesis
  proof (cases "0 \<le> e")
    case True
    have "(of_int k \<le> (of_int (m * 2 ^ nat e) :: rat)) = (k \<le> m * 2 ^ nat e)"
      by (rule of_int_le_iff)
    with True Float show ?thesis
      by (simp add: float_ge_int_def float_value_def pow2_def)
  next
    case False
    have "(of_int (k * 2 ^ nat (- e)) \<le> (of_int m :: rat)) = (k * 2 ^ nat (- e) \<le> m)"
      by (rule of_int_le_iff)
    with False Float show ?thesis
      by (simp add: float_ge_int_def float_value_def pow2_def pos_le_divide_eq)
  qed
qed

lemma grade_status_table: "grade_status p = grade_by_table (float_value p)"
  by (simp add: grade_status_def grade_by_table_def grade_table_def float_ge_int_value)

lemmas float_eval = float_mul_int_def round_ratio_def floor_log2_def ilog2.simps
  round_half_even_def float_ge_int_def

lemma percent_exact_0_20: "list_all percent_exact [0..20]"
  apply (simp add: upto.simps)
  apply (simp add: percent_exact_def float_eval)
  done

lemma percent_exact_21_40: "list_all percent_exact [21..40]"
  apply (simp add: upto.simps)
  apply (simp add: percent_exact_def float_eval)
  done

lemma percent_exact_41_60: "list_all percent_exact [41..60]"
  apply (simp add: upto.simps)
  apply (simp add: percent_exact_def float_eval)
  done

lemma percent_exact_61_80: "list_all percent_exact [61..80]"
  apply (simp add: upto.simps)
  apply (simp add: percent_exact_def float_eval)
  done

lemma percent_exact_81_100: "list_all percent_exact [81..100]"
  apply (simp add: upto.simps)
  apply (simp add: percent_exact_def float_eval)
  done

lemma percent_exact_range:
  assumes "0 \<le> n" and "n \<le> 100"
  shows "percent_exact n"
proof -
  from assms have "n \<in> {0..20} \<or> n \<in> {21..40} \<or> n \<in> {41..60} \<or> n \<in> {61..80} \<or> n \<in> {81..100}"
    by auto
  then show ?thesis
    using percent_exact_0_20 percent_exact_21_40 percent_exact_41_60 percent_exact_61_80
      percent_exact_81_100
    unfolding list_all_iff set_upto by blast
qed

lemma grade_exact:
  assumes "0 \<le> n" and "n \<le> 100"
  shows "grade_status (float_mul_int (round_ratio n 100) 100) = grade_by_table (of_int n)"
    and "grade_by_table (of_int n) =
      (if 90 \<le> n then (''A+ (Industrial Grade)'', EXCELLENT)
       else if 80 \<le> n then (''A (Professional Grade)'', VERY_GOOD)
       else if 70 \<le> n then (''B+ (Good Standard)'', GOOD)
       else if 60 \<le> n then (''B (Acceptable)'', NEEDS_IMPROVEMENT)
       else (''C (Below Standard)'', REQUIRES_MAJOR_WORK))"
proof -
  have t: "((90::rat) \<le> of_int n) = (90 \<le> n)" "((80::rat) \<le> of_int n) = (80 \<le> n)"
    "((70::rat) \<le> of_int n) = (70 \<le> n)" "((60::rat) \<le> of_int n) = (60 \<le> n)"
    using of_int_le_iff [of 90 n, where ?'a = rat] of_int_le_iff [of 80 n, where ?'a = rat]
      of_int_le_iff [of 70 n, where ?'a = rat] of_int_le_iff [of 60 n, where ?'a = rat]
    by simp_all
  show "grade_by_table (of_int n) =
      (if 90 \<le> n then (''A+ (Industrial Grade)'', EXCELLENT)
       else if 80 \<le> n then (''A (Professional Grade)'', VERY_GOOD)
       else if 70 \<le> n then (''B+ (Good Standard)'', GOOD)
       else if 60 \<le> n then (''B (Acceptable)'', NEEDS_IMPROVEMENT)
       else (''C (Below Standard)'', REQUIRES_MAJOR_WORK))"
    by (simp add: grade_by_table_def grade_table_def t)
  with percent_exact_range [OF assms]
  show "grade_status (float_mul_int (round_ratio n 100) 100) = grade_by_table (of_int n)"
    by (cases "float_mul_int (round_ratio n 100) 100")
       (simp add: grade_status_def percent_exact_def)
qed

text \<open>
  C3. For a score that is not negative, grade and status of the summary are those of
  the threshold table, read from the highest threshold down, at the percentage of the
  final score: at least 90 gives A+, at least 80 gives A, at least 70 gives B+, at
  least 60 gives B and anything lower gives C. The floating-point percentage the code
  compares and the exact percentage select the same row.
\<close>

theorem threshold_grades:
  assumes "0 \<le> ux_score r"
    and "calculate_ux_score (IndustrialUXValidator b) r = Inr r'"
  shows "\<exists>s. summary r' = Some s \<and> final_score s = min (ux_score r) 100 \<and>
     (grade s, status s) = grade_by_table (float_value (percentage s)) \<and>
     (grade s, status s) = grade_by_table (of_int (final_score s) * 100 / of_int (max_score s)) \<and>
     (grade s, status s) =
       (if 90 \<le> final_score s then (''A+ (Industrial Grade)'', EXCELLENT)
        else if 80 \<le> final_score s then (''A (Professional Grade)'', VERY_GOOD)
        else if 70 \<le> final_score s then (''B+ (Good Standard)'', GOOD)
        else if 60 \<le> final_score s then (''B (Acceptable)'', NEEDS_IMPROVEMENT)
        else (''C (Below Standard)'', REQUIRES_MAJOR_WORK))"
proof -
  from assms(2) obtain recs where recs: "generate_recommendations r = Inr recs"
    by (cases "generate_recommendations r")
       (auto simp: calculate_ux_score_def bind_result_def Let_def case_prod_unfold
          split: sum.splits)
  define n where "n = min (ux_score r) 100"
  have n: "0 \<le> n" "n \<le> 100" using assms(1) by (simp_all add: n_def)
  have "grade_status (float_mul_int (round_ratio n 100) 100)
      = grade_by_table (float_value (float_mul_int (round_ratio n 100) 100))"
    by (rule grade_status_table)
  with calculate_ux_score_value [OF recs, of b] assms(2) grade_exact [OF n]
  show ?thesis by (auto simp: n_def)
qed

theorem threshold_grades_witness:
  "0 \<le> ux_score (checked_results []) \<and>
   (\<exists>r' s. calculate_ux_score (IndustrialUXValidator []) (checked_results []) = Inr r' \<and>
      summary r' = Some s \<and> final_score s = 0 \<and>
      grade s = ''C (Below Standard)'' \<and> status s = REQUIRES_MAJOR_WORK)"
proof -
  have z: "ux_score (checked_results []) = 0"
    by (simp add: checked_results_score validation_methods_def awarded_values sum_values_def
        material_design_checks_def accessibility_checks_def performance_checks_def
        animation_checks_def theming_checks_def responsive_checks_def flow_checks_def
        rglob_def mark_def custom_fonts_check_def path_lookup_def Let_def)
  obtain r' where run: "calculate_ux_score (IndustrialUXValidator []) (checked_results []) = Inr r'"
    using calculate_ux_score_value [OF recommendations_checked] by blast
  have pos: "0 \<le> ux_score (checked_results [])" by (simp add: z)
  from threshold_grades [OF pos run] obtain s where s: "summary r' = Some s"
      "final_score s = min (ux_score (checked_results [])) 100"
    and g: "(grade s, status s) =
       (if 90 \<le> final_score s then (''A+ (Industrial Grade)'', EXCELLENT)
        else if 80 \<le> final_score s then (''A (Professional Grade)'', VERY_GOOD)
        else if 70 \<le> final_score s then (''B+ (Good Standard)'', GOOD)
        else if 60 \<le> final_score s then (''B (Acceptable)'', NEEDS_IMPROVEMENT)
        else (''C (Below Standard)'', REQUIRES_MAJOR_WORK))"
    by blast
  from s(2) z have f: "final_score s = 0" by simp
  from g f have "grade s = ''C (Below Standard)''" "status s = REQUIRES_MAJOR_WORK"
    by simp_all
  with run s(1) f pos show ?thesis by simp
qed

section \<open>A project that satisfies every check\<close>

lemma startswith_append: "startswith (x @ b) x"
  by (simp add: startswith_def)

lemma str_in_append: "str_in x (a @ x @ b)"
proof (induction a)
  case Nil
  show ?case by (cases "x @ b") (use startswith_append [of x b] in \<open>auto simp: startswith_def\<close>)
next
  case (Cons c a)
  then show ?case by simp
qed

lemma str_in_concat: "x \<in> set xs \<Longrightarrow> str_in x (concat xs)"
proof (induction xs)
  case Nil
  then show ?case by simp
next
  case (Cons y ys)
  show ?case
  proof (cases "x = y")
    case True
    then show ?thesis using str_in_append [of x "[]" "concat ys"] by simp
  next
    case False
    with Cons have "str_in x (concat ys)" by simp
    then have "str_in x (y @ concat ys)" by (induction y) simp_all
    then show ?thesis by simp
  qed
qed

lemma str_in_map: "str_in x s \<Longrightarrow> str_in (map f x) (map f s)"
proof (induction s)
  case Nil
  then show ?case by simp
next
  case (Cons c s)
  show ?case
  proof (cases "startswith (c # s) x")
    case True
    then have t: "take (length x) (c # s) = x"
      by (simp add: startswith_def)
    have "take (length (map f x)) (map f (c # s)) = map f (take (length x) (c # s))"
      by (simp only: length_map take_map)
    with t have "startswith (map f (c # s)) (map f x)"
      by (simp only: startswith_def)
    then show ?thesis by simp
  next
    case False
    with Cons show ?thesis by simp
  qed
qed

lemma full_text_contains:
  "str_in ''elevation:'' full_text" "str_in ''Semantics('' full_text"
  "str_in ''FocusNode'' full_text" "str_in ''MediaQuery'' full_text"
  "str_in ''MergeSemantics'' full_text" "str_in ''ThemeData.dark'' full_text"
  "str_in ''FutureBuilder'' full_text" "str_in ''dispose()'' full_text"
  "str_in ''initState()'' full_text" "str_in ''Tween'' full_text"
  "str_in ''onTap'' full_text" "str_in ''Animation'' full_text"
  "str_in ''SlideTransition'' full_text" "str_in ''LinearProgressIndicator'' full_text"
  "str_in ''GestureDetector'' full_text" "str_in ''Hero('' full_text"
  "str_in ''Theme.of(context)'' full_text" "str_in ''ThemeMode'' full_text"
  "str_in ''Color(0x'' full_text" "str_in ''MediaQuery.of(context).size'' full_text"
  "str_in ''Orientation.'' full_text" "str_in ''SafeArea('' full_text"
  "str_in ''Wrap('' full_text" "str_in ''constraints'' full_text"
  "str_in ''intro'' full_text" "str_in ''try {'' full_text" "str_in ''catch'' full_text"
  "str_in ''Navigator.'' full_text" "str_in ''SnackBar'' full_text"
  unfolding full_text_def by (rule str_in_concat, simp)+

lemma full_text_lower: "str_in ''intro'' (lower full_text)"
proof -
  have "lower ''intro'' = ''intro''"
    by (simp add: lower_def lower_char_def)
  with str_in_map [OF full_text_contains(25), of lower_char] show ?thesis
    by (simp add: lower_def)
qed

lemma full_text_colors: "3 \<le> count_color_literals full_text"
proof -
  have at: "color_literal_at (''Color(0xFF'' @ a # b # c # d # e # f # '')'' @ rest)"
    if "list_all is_hex [a, b, c, d, e, f]" for a b c d e f rest
    using that by (simp add: color_literal_at_def startswith_def is_hex_def is_digit_ascii_def)
  have step: "count_color_literals (''Color(0xFF'' @ a # b # c # d # e # f # '')'' @ rest)
      = Suc (count_color_literals rest)"
    if "list_all is_hex [a, b, c, d, e, f]" for a b c d e f rest
    using at [OF that, of rest] by simp
  have "count_color_literals full_text = Suc (Suc (Suc (count_color_literals (concat
     [''elevation:'', ''Semantics('', ''FocusNode'', ''MediaQuery'', ''MergeSemantics'',
      ''ThemeData.dark'', ''FutureBuilder'', ''dispose()'', ''initState()'', ''Tween'',
      ''onTap'', ''Animation'', ''SlideTransition'', ''LinearProgressIndicator'',
      ''GestureDetector'', ''Hero('', ''Theme.of(context)'', ''ThemeMode'', ''Color(0x'',
      ''MediaQuery.of(context).size'', ''Orientation.'', ''SafeArea('', ''Wrap('',
      ''constraints'', ''intro'', ''try {'', ''catch'', ''Navigator.'', ''SnackBar'']))))"
    unfolding full_text_def concat.simps
    using step [of "CHR ''1''" "CHR ''1''" "CHR ''2''" "CHR ''2''" "CHR ''3''" "CHR ''3''"]
      step [of "CHR ''4''" "CHR ''4''" "CHR ''5''" "CHR ''5''" "CHR ''6''" "CHR ''6''"]
      step [of "CHR ''7''" "CHR ''7''" "CHR ''8''" "CHR ''8''" "CHR ''9''" "CHR ''9''"]
    by (simp add: is_hex_def is_digit_ascii_def)
  then show ?thesis by simp
qed

lemmas full_text_facts = full_text_contains full_text_lower full_text_colors

lemma full_corpus_rglob:
  "rglob full_corpus ''*.dart'' = tl full_corpus"
  "rglob full_corpus ''*theme*.dart'' = [full_corpus ! 1]"
  "rglob full_corpus ''*color*.dart'' = [full_corpus ! 2]"
  "rglob full_corpus ''*typography*.dart'' = [full_corpus ! 3]"
  "rglob full_corpus ''premium_*.dart'' = [full_corpus ! 4, full_corpus ! 5, full_corpus ! 6]"
  "rglob full_corpus ''*cache*.dart'' = [full_corpus ! 7]"
  "rglob full_corpus ''*performance*.dart'' = [full_corpus ! 8]"
  "rglob full_corpus ''*auth*.dart'' = [full_corpus ! 9]"
  by (simp_all add: rglob_def full_corpus_def)

lemma mark_False: "mark False k c = c"
  by (simp add: mark_def)

lemma empty_file_bodies:
  "accessibility_file [] c = c" "performance_file [] c = c" "animation_file [] c = c"
  "theming_file [] c = c" "responsive_file [] c = c" "flow_file [] c = c"
  by (simp_all add: accessibility_file_def performance_file_def animation_file_def
      theming_file_def responsive_file_def flow_file_def lower_def mark_False Let_def)

lemma scan_full_corpus:
  "scan_files accessibility_file (tl full_corpus) c = accessibility_file full_text c"
  "scan_files performance_file (tl full_corpus) c = performance_file full_text c"
  "scan_files animation_file (tl full_corpus) c = animation_file full_text c"
  "scan_files theming_file (tl full_corpus) c = theming_file full_text c"
  "scan_files responsive_file (tl full_corpus) c = responsive_file full_text c"
  "scan_files flow_file (tl full_corpus) c = flow_file full_text c"
  by (simp_all add: full_corpus_def empty_file_bodies)

lemma mark_True: "mark True k c = AList.update k True c"
  by (simp add: mark_def)

lemma full_text_bodies:
  "accessibility_file full_text c =
     AList.update ''screen_reader_support'' True (AList.update ''text_scaling'' True
       (AList.update ''focus_management'' True (AList.update ''semantic_labels'' True c)))"
  "performance_file full_text c =
     AList.update ''smooth_animations'' True (AList.update ''memory_optimization'' True
       (AList.update ''lazy_loading'' True c))"
  "animation_file full_text c =
     AList.update ''hero_animations'' True (AList.update ''gesture_animations'' True
       (AList.update ''loading_animations'' True (AList.update ''page_transitions'' True
         (AList.update ''micro_interactions'' True c))))"
  "theming_file full_text c =
     AList.update ''brand_consistency'' True (AList.update ''theme_switching'' True
       (AList.update ''consistent_colors'' True (AList.update ''dark_light_theme'' True c)))"
  "responsive_file full_text c =
     AList.update ''breakpoint_handling'' True (AList.update ''flexible_layouts'' True
       (AList.update ''safe_area_usage'' True (AList.update ''orientation_handling'' True
         (AList.update ''screen_size_adaptation'' True c))))"
  "flow_file full_text c =
     AList.update ''feedback_flow'' True (AList.update ''navigation_flow'' True
       (AList.update ''error_handling_flow'' True (AList.update ''onboarding_flow'' True c)))"
  by (simp_all only: accessibility_file_def performance_file_def animation_file_def
      theming_file_def responsive_file_def flow_file_def Let_def full_text_facts
      simp_thms mark_True)

lemma full_corpus_fonts: "custom_fonts_check full_corpus"
  by (simp add: custom_fonts_check_def path_lookup_def full_corpus_def startswith_def)

lemma full_corpus_until:
  "scan_until (\<lambda>content. str_in ''elevation:'' content \<or> str_in ''boxShadow'' content)
     (tl full_corpus)"
  "scan_until (\<lambda>content. str_in ''ThemeData.dark'' content
       \<or> str_in ''brightness: Brightness.dark'' content) [full_corpus ! 1]"
  by (simp_all add: full_corpus_def full_text_facts)

lemma full_corpus_checks:
  "material_design_checks full_corpus =
     [(''theme_implementation'', True), (''component_usage'', True), (''color_system'', True),
      (''typography'', True), (''elevation_shadows'', True)]"
  "accessibility_checks full_corpus =
     [(''semantic_labels'', True), (''focus_management'', True), (''color_contrast'', True),
      (''text_scaling'', True), (''screen_reader_support'', True)]"
  "performance_checks full_corpus =
     [(''image_caching'', True), (''lazy_loading'', True), (''performance_monitoring'', True),
      (''memory_optimization'', True), (''smooth_animations'', True)]"
  "animation_checks full_corpus =
     [(''micro_interactions'', True), (''page_transitions'', True),
      (''loading_animations'', True), (''gesture_animations'', True),
      (''hero_animations'', True)]"
  "theming_checks full_corpus =
     [(''dark_light_theme'', True), (''consistent_colors'', True), (''custom_fonts'', True),
      (''theme_switching'', True), (''brand_consistency'', True)]"
  "responsive_checks full_corpus =
     [(''screen_size_adaptation'', True), (''orientation_handling'', True),
      (''safe_area_usage'', True), (''flexible_layouts'', True),
      (''breakpoint_handling'', True)]"
  "flow_checks full_corpus =
     [(''onboarding_flow'', True), (''authentication_flow'', True),
      (''error_handling_flow'', True), (''navigation_flow'', True),
      (''feedback_flow'', True)]"
  by (simp_all only: material_design_checks_def accessibility_checks_def
      performance_checks_def animation_checks_def theming_checks_def responsive_checks_def
      flow_checks_def Let_def full_corpus_rglob full_corpus_until full_corpus_fonts
      scan_full_corpus
      full_text_bodies mark_True list.simps not_Cons_self2 simp_thms list.size)
     (simp_all add: mark_True)

lemma sum_values_all:
  "(\<forall>(k, v) \<in> set c. v) \<Longrightarrow> sum_values c = int (length c)"
  by (induction c) (auto simp: sum_values_def)

lemma run_categories:
  assumes "validate_complete_ux (IndustrialUXValidator b) fs = Inr r"
  shows "categories r = categories (checked_results fs)"
  using assms unfolding validate_complete_ux_value by (auto simp: categories_def)

text \<open>
  C5. When every check of every category of a run is satisfied, the final score is the
  overall maximum 100 and the grade is that of the top threshold.
\<close>

theorem all_checks_satisfied:
  assumes "validate_complete_ux (IndustrialUXValidator b) fs = Inr r"
    and "\<forall>(name, checks, max_points) \<in> set (categories r). \<forall>(k, v) \<in> set checks. v"
  shows "\<exists>s. summary r = Some s \<and> final_score s = 100 \<and> final_score s = max_score s \<and>
     grade s = ''A+ (Industrial Grade)'' \<and> status s = EXCELLENT"
proof -
  from assms(1) have r: "r = (checked_results fs)\<lparr>summary := Some
      \<lparr>final_score = min (ux_score (checked_results fs)) 100, max_score = 100,
       percentage = float_mul_int (round_ratio (min (ux_score (checked_results fs)) 100) 100) 100,
       grade = fst (grade_status (float_mul_int (round_ratio (min (ux_score (checked_results fs)) 100) 100) 100)),
       status = snd (grade_status (float_mul_int (round_ratio (min (ux_score (checked_results fs)) 100) 100) 100)),
       recommendations = spec_recommendations (checked_results fs)\<rparr>\<rparr>"
    by (simp add: validate_complete_ux_value)
  from assms(2) have "sum_values (material_design_checks fs) = 5"
    "sum_values (accessibility_checks fs) = 5" "sum_values (performance_checks fs) = 5"
    "sum_values (animation_checks fs) = 5" "sum_values (theming_checks fs) = 5"
    "sum_values (responsive_checks fs) = 5" "sum_values (flow_checks fs) = 5"
    unfolding r categories_checked
    by (simp_all add: categories_def checked_results_fields sum_values_all checks_length)
  then have "ux_score (checked_results fs) = 100"
    by (simp add: checked_results_score validation_methods_def awarded_values)
  with r grade_exact [of 100] show ?thesis by simp
qed

theorem all_checks_satisfied_witness:
  "\<exists>r. validate_complete_ux (IndustrialUXValidator []) full_corpus = Inr r \<and>
     (\<forall>(name, checks, max_points) \<in> set (categories r). \<forall>(k, v) \<in> set checks. v) \<and>
     (\<exists>s. summary r = Some s \<and> final_score s = 100 \<and> grade s = ''A+ (Industrial Grade)'')"
proof -
  obtain r where run: "validate_complete_ux (IndustrialUXValidator []) full_corpus = Inr r"
    using validate_complete_ux_value by blast
  then have "categories r = categories (checked_results full_corpus)"
    by (rule run_categories)
  then have all: "\<forall>(name, checks, max_points) \<in> set (categories r). \<forall>(k, v) \<in> set checks. v"
    by (simp add: categories_def checked_results_fields full_corpus_checks)
  from all_checks_satisfied [OF run all] run all show ?thesis by blast
qed

end
